theory Spec2Isabelle
  imports Main "HOL-Library.Word"
begin

section \<open>Key, signature and address encoding of two1.bitcoin.crypto\<close>

text \<open>
  A shallow embedding of \<^verbatim>\<open>src/two1/bitcoin/crypto.py\<close>. Python integers are
  \<open>int\<close>, a \<^verbatim>\<open>bytes\<close> object is a list of 8-bit words, an exception is the
  \<open>Inl\<close> side of a sum. The collaborators the module imports but does not define
  (the curve engine, hashlib, base58) are the fields of one record, so that every
  theorem about the module holds for whatever they compute. Signing, verification and
  the hexadecimal views (\<^verbatim>\<open>raw_sign\<close>, \<^verbatim>\<open>sign\<close>, \<^verbatim>\<open>verify\<close>, \<^verbatim>\<open>to_hex\<close>,
  \<^verbatim>\<open>der_encode_hex\<close>) only pass values on to the engine and to
  \<^verbatim>\<open>bytes_to_str\<close>; they are not part of the embedding.
\<close>

subsection \<open>Values, exceptions and sequencing\<close>

type_synonym byte = "8 word"
type_synonym bytes = "byte list"

datatype error =
    AssertionError
  | NameError string
  | TypeError
  | ValueError
  | OverflowError
  | IndexError
  | AttributeError
  | PyAsn1Error
  | CurveError

definition bind :: "error + 'a \<Rightarrow> ('a \<Rightarrow> error + 'b) \<Rightarrow> error + 'b" where
  "bind m f = (case m of Inl e \<Rightarrow> Inl e | Inr v \<Rightarrow> f v)"

subsection \<open>The Python built-ins the module calls\<close>

text \<open>\<^verbatim>\<open>k.to_bytes(length, 'big')\<close>: unsigned, fixed width, most significant byte first;
  a negative or too large \<open>k\<close> raises OverflowError.\<close>

fun be_bytes :: "nat \<Rightarrow> int \<Rightarrow> bytes" where
  "be_bytes 0 k = []"
| "be_bytes (Suc len) k = be_bytes len (k div 256) @ [word_of_int (k mod 256)]"

definition int_to_bytes :: "int \<Rightarrow> nat \<Rightarrow> error + bytes" where
  "int_to_bytes k len =
     (if k < 0 then Inl OverflowError
      else if 256 ^ len \<le> k then Inl OverflowError
      else Inr (be_bytes len k))"

text \<open>\<^verbatim>\<open>int.from_bytes(b, 'big')\<close>: unsigned, any length.\<close>

definition int_from_bytes :: "bytes \<Rightarrow> int" where
  "int_from_bytes bs = foldl (\<lambda>acc b. acc * 256 + uint b) 0 bs"

text \<open>\<^verbatim>\<open>bytes([v])\<close>: ValueError unless \<open>v\<close> is in \<^verbatim>\<open>range(256)\<close>.\<close>

definition bytes_of_int :: "int \<Rightarrow> error + bytes" where
  "bytes_of_int v = (if 0 \<le> v \<and> v < 256 then Inr [word_of_int v] else Inl ValueError)"

text \<open>\<^verbatim>\<open>b[i:j]\<close> for non-negative constant bounds, and \<^verbatim>\<open>b[0]\<close>.\<close>

definition slice :: "'a list \<Rightarrow> nat \<Rightarrow> nat \<Rightarrow> 'a list" where
  "slice b i j = take (j - i) (drop i b)"


text \<open>\<^verbatim>\<open>k.bit_length()\<close>: the number of bits of \<open>\<bar>k\<bar>\<close>.\<close>

function bit_length :: "int \<Rightarrow> nat" where
  "bit_length k = (if k = 0 then 0 else Suc (bit_length (\<bar>k\<bar> div 2)))"
  by pat_completeness auto
termination
  by (relation "measure (\<lambda>k. nat \<bar>k\<bar>)") auto

declare bit_length.simps [simp del]

text \<open>ASCII whitespace: space, tab, line feed, vertical tab, form feed, carriage
  return.\<close>

definition ascii_space :: "nat \<Rightarrow> bool" where
  "ascii_space v = (v = 32 \<or> (9 \<le> v \<and> v \<le> 13))"

text \<open>\<^verbatim>\<open>bytes.fromhex(s)\<close>: pairs of hexadecimal digits, ASCII whitespace between pairs
  skipped; anything else raises ValueError.\<close>

definition hex_digit :: "char \<Rightarrow> nat option" where
  "hex_digit c =
     (let v = of_char c :: nat in
      if 48 \<le> v \<and> v \<le> 57 then Some (v - 48)
      else if 97 \<le> v \<and> v \<le> 102 then Some (v - 87)
      else if 65 \<le> v \<and> v \<le> 70 then Some (v - 55)
      else None)"

fun bytes_fromhex :: "string \<Rightarrow> error + bytes" where
  "bytes_fromhex [] = Inr []"
| "bytes_fromhex [c] = (if ascii_space (of_char c) then Inr [] else Inl ValueError)"
| "bytes_fromhex (c # d # s) =
     (if ascii_space (of_char c) then bytes_fromhex (d # s)
      else (case (hex_digit c, hex_digit d) of
              (Some h, Some l) \<Rightarrow> bind (bytes_fromhex s) (\<lambda>r. Inr (of_nat (16 * h + l) # r))
            | _ \<Rightarrow> Inl ValueError))"

subsection \<open>The DER codec (pyasn1)\<close>

text \<open>
  Modelled from the spec: the ASN.1 library (\<^verbatim>\<open>pyasn1.codec.der.encoder\<close> and
  \<^verbatim>\<open>decoder\<close>) is imported by the module and is not part of its source. Section 4.1
  of the specification fixes what it computes: standard DER, a SEQUENCE of INTEGER
  elements, each INTEGER of minimal length in two's complement, definite lengths.
  Only the two universal types the module uses are modelled.
\<close>

datatype asn1 = Integer int | Sequence "asn1 list"

text \<open>Content octets of an INTEGER: the shortest two's-complement form.\<close>

function int_octets :: "int \<Rightarrow> bytes" where
  "int_octets i =
     (if - 128 \<le> i \<and> i < 128 then [word_of_int i]
      else int_octets (i div 256) @ [word_of_int (i mod 256)])"
  by pat_completeness auto
termination
  by (relation "measure (\<lambda>i. nat \<bar>i\<bar>)") auto

declare int_octets.simps [simp del]

definition signed_from_bytes :: "bytes \<Rightarrow> int" where
  "signed_from_bytes bs =
     (case bs of [] \<Rightarrow> 0 | b # r \<Rightarrow> foldl (\<lambda>acc c. acc * 256 + uint c) (sint b) r)"

text \<open>Length octets: short form below 128, long form otherwise.\<close>

function nat_octets :: "nat \<Rightarrow> bytes" where
  "nat_octets m =
     (if m < 256 then [of_nat m] else nat_octets (m div 256) @ [of_nat (m mod 256)])"
  by pat_completeness auto
termination
  by (relation "measure (\<lambda>m. m)") auto

declare nat_octets.simps [simp del]

definition encode_length :: "nat \<Rightarrow> error + bytes" where
  "encode_length m =
     (if m < 128 then Inr [of_nat m]
      else (let os = nat_octets m in
            if 126 < length os then Inl PyAsn1Error
            else Inr (of_nat (128 + length os) # os)))"

definition decode_length :: "bytes \<Rightarrow> error + nat \<times> bytes" where
  "decode_length bs =
     (case bs of
        [] \<Rightarrow> Inl PyAsn1Error
      | b # rest \<Rightarrow>
          if b < 128 then Inr (unat b, rest)
          else (let k = unat b - 128 in
                if k = 0 \<or> k = 127 \<or> length rest < k then Inl PyAsn1Error
                else Inr (nat (int_from_bytes (take k rest)), drop k rest)))"

definition encode_tlv :: "byte \<Rightarrow> bytes \<Rightarrow> error + bytes" where
  "encode_tlv tag content =
     bind (encode_length (length content)) (\<lambda>l. Inr (tag # l @ content))"

fun encoder_encode :: "asn1 \<Rightarrow> error + bytes"
  and encode_all :: "asn1 list \<Rightarrow> error + bytes" where
  "encoder_encode (Integer i) = encode_tlv 0x02 (int_octets i)"
| "encoder_encode (Sequence vs) = bind (encode_all vs) (encode_tlv 0x30)"
| "encode_all [] = Inr []"
| "encode_all (v # vs) =
     bind (encoder_encode v) (\<lambda>a. bind (encode_all vs) (\<lambda>b. Inr (a @ b)))"

text \<open>The decoder reads one value and returns it with the bytes that follow it, as
  \<^verbatim>\<open>decoder.decode\<close> does. The first argument bounds the number of values read; the
  length of the input is always enough, since every value takes at least two bytes.\<close>

fun decode_value :: "nat \<Rightarrow> bytes \<Rightarrow> error + asn1 \<times> bytes"
  and decode_all :: "nat \<Rightarrow> bytes \<Rightarrow> error + asn1 list" where
  "decode_value 0 bs = Inl PyAsn1Error"
| "decode_value (Suc fuel) bs =
     (case bs of
        [] \<Rightarrow> Inl PyAsn1Error
      | tag # r1 \<Rightarrow>
          bind (decode_length r1) (\<lambda>(len, r2).
            if length r2 < len then Inl PyAsn1Error
            else (let content = take len r2; rest = drop len r2 in
                  if tag = 0x02 then
                    (if content = [] then Inl PyAsn1Error
                     else Inr (Integer (signed_from_bytes content), rest))
                  else if tag = 0x30 then
                    bind (decode_all fuel content) (\<lambda>vs. Inr (Sequence vs, rest))
                  else Inl PyAsn1Error)))"
| "decode_all 0 bs = (if bs = [] then Inr [] else Inl PyAsn1Error)"
| "decode_all (Suc fuel) bs =
     (if bs = [] then Inr []
      else bind (decode_value fuel bs) (\<lambda>(v, rest).
             bind (decode_all fuel rest) (\<lambda>vs. Inr (v # vs))))"

definition decoder_decode :: "bytes \<Rightarrow> error + asn1 \<times> bytes" where
  "decoder_decode der = decode_value (Suc (length der)) der"

text \<open>\<^verbatim>\<open>d.getComponentByPosition(i)\<close> and \<^verbatim>\<open>int(component)\<close>.\<close>

definition getComponentByPosition :: "asn1 \<Rightarrow> nat \<Rightarrow> error + asn1" where
  "getComponentByPosition d i =
     (case d of
        Sequence vs \<Rightarrow> if i < length vs then Inr (vs ! i) else Inl IndexError
      | Integer _ \<Rightarrow> Inl AttributeError)"

definition asn1_int :: "asn1 \<Rightarrow> error + int" where
  "asn1_int d = (case d of Integer i \<Rightarrow> Inr i | Sequence _ \<Rightarrow> Inl TypeError)"

subsection \<open>Collaborators\<close>

text \<open>
  A curve point as \<^verbatim>\<open>ECPointAffine(curve, x, y)\<close> builds it. The module has one
  curve, \<^verbatim>\<open>bitcoin_curve\<close>, so the point does not carry it.
\<close>

datatype ECPointAffine = ECPointAffine (point_x: int) (point_y: int)

text \<open>
  What the module imports and calls: the curve engine \<^verbatim>\<open>bitcoin_curve\<close> with its
  parameters \<^verbatim>\<open>p\<close> and \<^verbatim>\<open>n\<close>, \<^verbatim>\<open>ECPointAffine.from_int\<close>, the two digests of
  hashlib and the Base58Check codec. The engine's calls may raise.
\<close>

record env =
  curve_p :: int
  curve_n :: int
  curve_public_key :: "int \<Rightarrow> error + int"
  curve_is_on_curve :: "ECPointAffine \<Rightarrow> bool"
  curve_y_from_x :: "int \<Rightarrow> error + int"
  ECPointAffine_from_int :: "int \<Rightarrow> error + ECPointAffine"
  hashlib_sha256 :: "bytes \<Rightarrow> bytes"
  hashlib_ripemd160 :: "bytes \<Rightarrow> bytes"
  b58encode_check :: "bytes \<Rightarrow> string"
  b58decode_check :: "string \<Rightarrow> error + bytes"

text \<open>\<^verbatim>\<open>random.SystemRandom().randrange(start, stop)\<close>: the values a call may return,
  the integers of \<^verbatim>\<open>range(start, stop)\<close>; an empty range raises ValueError.\<close>

definition randrange :: "int \<Rightarrow> int \<Rightarrow> error + int set" where
  "randrange start stop = (if start < stop then Inr {start..<stop} else Inl ValueError)"

subsection \<open>der_encode_point, der_decode_point\<close>

definition der_encode_point :: "ECPointAffine \<Rightarrow> error + bytes" where
  "der_encode_point pt = encoder_encode (Sequence [Integer (point_x pt), Integer (point_y pt)])"

text \<open>The argument of \<^verbatim>\<open>der_decode_point\<close> is tested with \<^verbatim>\<open>isinstance\<close>.\<close>

datatype der_arg = Bytes bytes | Str string | Other

definition der_decode_point :: "env \<Rightarrow> der_arg \<Rightarrow> error + ECPointAffine" where
  "der_decode_point curve der =
     bind (case der of
             Bytes b \<Rightarrow> decoder_decode b
           | Str s \<Rightarrow> bind (bytes_fromhex s) decoder_decode
           | Other \<Rightarrow> Inl TypeError) (\<lambda>(d, _).
     bind (bind (getComponentByPosition d 0) asn1_int) (\<lambda>x.
     bind (bind (getComponentByPosition d 1) asn1_int) (\<lambda>y.
     Inr (ECPointAffine x y))))"

subsection \<open>PublicKey\<close>

record PublicKey =
  pub_point :: ECPointAffine
  pub_testnet :: bool
  pub_address :: bytes
  pub_b58address :: string

text \<open>\<^verbatim>\<open>__bytes__\<close> reads \<^verbatim>\<open>self.point\<close> only; the constructor calls it before the
  address fields exist, so its body is stated on the point.\<close>

definition point_bytes :: "ECPointAffine \<Rightarrow> error + bytes" where
  "point_bytes pt =
     bind (bytes_of_int 0x04) (\<lambda>t.
     bind (int_to_bytes (point_x pt) 32) (\<lambda>xb.
     bind (int_to_bytes (point_y pt) 32) (\<lambda>yb.
     Inr (t @ xb @ yb))))"

definition PublicKey_bytes :: "PublicKey \<Rightarrow> error + bytes" where
  "PublicKey_bytes self = point_bytes (pub_point self)"

definition PublicKey_init :: "env \<Rightarrow> int \<Rightarrow> int \<Rightarrow> bool \<Rightarrow> error + PublicKey" where
  "PublicKey_init E x y testnet =
     (let p = ECPointAffine x y in
      if \<not> curve_is_on_curve E p then Inl AssertionError
      else
        bind (point_bytes p) (\<lambda>b.
        let pk_sha = hashlib_sha256 E b;
            ripe = hashlib_ripemd160 E pk_sha in
        bind (bytes_of_int (if testnet then 0x6F else 0x00)) (\<lambda>version.
        let address = version @ ripe in
        Inr \<lparr>pub_point = p, pub_testnet = testnet, pub_address = address,
             pub_b58address = b58encode_check E address\<rparr>)))"

definition PublicKey_from_point :: "env \<Rightarrow> ECPointAffine \<Rightarrow> bool \<Rightarrow> error + PublicKey" where
  "PublicKey_from_point E p testnet = PublicKey_init E (point_x p) (point_y p) testnet"

definition PublicKey_from_int :: "env \<Rightarrow> int \<Rightarrow> bool \<Rightarrow> error + PublicKey" where
  "PublicKey_from_int E i testnet =
     bind (ECPointAffine_from_int E i) (\<lambda>point. PublicKey_from_point E point testnet)"

definition PublicKey_from_der :: "env \<Rightarrow> der_arg \<Rightarrow> bool \<Rightarrow> error + PublicKey" where
  "PublicKey_from_der E d testnet =
     bind (der_decode_point E d) (\<lambda>point. PublicKey_from_point E point testnet)"

definition PublicKey_to_der :: "PublicKey \<Rightarrow> error + bytes" where
  "PublicKey_to_der self = der_encode_point (pub_point self)"

definition PublicKey_int :: "env \<Rightarrow> PublicKey \<Rightarrow> int" where
  "PublicKey_int E self =
     push_bit (bit_length (curve_n E)) (point_x (pub_point self)) + point_y (pub_point self)"

subsection \<open>Name resolution in PublicKey.from_bytes\<close>

text \<open>
  The body of \<^verbatim>\<open>from_bytes\<close> reads the names \<^verbatim>\<open>key_bytes\<close> and \<^verbatim>\<open>key\<close>. A name is
  looked up among the function's own bindings (its parameters \<^verbatim>\<open>b\<close> and
  \<^verbatim>\<open>testnet\<close>; the body assigns \<^verbatim>\<open>key_bytes_len\<close>, \<^verbatim>\<open>key_type\<close>, \<^verbatim>\<open>x\<close> and
  \<^verbatim>\<open>y\<close> later), then among the names bound at the top level of the module, then among
  the built-ins; a name found nowhere raises NameError.
\<close>

datatype pyobj = PyBytes bytes | PyBool bool | PyGlobal string

definition module_names :: "string list" where
  "module_names =
     [''base58'', ''hashlib'', ''random'', ''univ'', ''namedtype'', ''encoder'', ''decoder'',
      ''bytes_to_str'', ''ECPointAffine'', ''ECPointJacobian'', ''EllipticCurve'',
      ''secp256k1'', ''bitcoin_curve'', ''ECDERPoint'', ''der_encode_point'',
      ''der_encode_hex'', ''der_decode_point'', ''PrivateKey'', ''PublicKey'']"

definition builtin_names :: "string list" where
  "builtin_names =
     [''abs'', ''all'', ''any'', ''ascii'', ''bin'', ''bool'', ''bytearray'', ''bytes'',
      ''callable'', ''chr'', ''classmethod'', ''compile'', ''complex'', ''delattr'', ''dict'',
      ''dir'', ''divmod'', ''enumerate'', ''eval'', ''exec'', ''filter'', ''float'',
      ''format'', ''frozenset'', ''getattr'', ''globals'', ''hasattr'', ''hash'', ''help'',
      ''hex'', ''id'', ''input'', ''int'', ''isinstance'', ''issubclass'', ''iter'', ''len'',
      ''list'', ''locals'', ''map'', ''max'', ''memoryview'', ''min'', ''next'', ''object'',
      ''oct'', ''open'', ''ord'', ''pow'', ''print'', ''property'', ''range'', ''repr'',
      ''reversed'', ''round'', ''set'', ''setattr'', ''slice'', ''sorted'', ''staticmethod'',
      ''str'', ''sum'', ''super'', ''tuple'', ''type'', ''vars'', ''zip'', ''__import__'',
      ''None'', ''True'', ''False'', ''Ellipsis'', ''NotImplemented'', ''__debug__'',
      ''__name__'', ''__doc__'', ''__file__'', ''__builtins__'']"

definition load_name :: "(string \<times> pyobj) list \<Rightarrow> string \<Rightarrow> error + pyobj" where
  "load_name bound nm =
     (case map_of bound nm of
        Some v \<Rightarrow> Inr v
      | None \<Rightarrow>
          if nm \<in> set module_names \<or> nm \<in> set builtin_names then Inr (PyGlobal nm)
          else Inl (NameError nm))"

text \<open>\<^verbatim>\<open>len(o)\<close>, \<^verbatim>\<open>o[i:j]\<close>, \<^verbatim>\<open>int(o)\<close> and \<^verbatim>\<open>int.from_bytes(o, 'big')\<close> on a loaded
  object.\<close>

definition py_len :: "pyobj \<Rightarrow> error + int" where
  "py_len obj = (case obj of PyBytes b \<Rightarrow> Inr (int (length b)) | _ \<Rightarrow> Inl TypeError)"

definition py_slice :: "pyobj \<Rightarrow> nat \<Rightarrow> nat \<Rightarrow> error + pyobj" where
  "py_slice obj i j = (case obj of PyBytes b \<Rightarrow> Inr (PyBytes (slice b i j)) | _ \<Rightarrow> Inl TypeError)"

text \<open>\<^verbatim>\<open>int(b)\<close> of a bytes object reads decimal text: ASCII whitespace around it is
  dropped, one sign may lead, and single underscores may stand between digits.\<close>

definition ascii_digit :: "byte \<Rightarrow> bool" where
  "ascii_digit d = (48 \<le> d \<and> d \<le> 57)"

fun digits :: "int \<Rightarrow> bytes \<Rightarrow> int option" where
  "digits acc [] = Some acc"
| "digits acc (d # r) =
     (if ascii_digit d then digits (acc * 10 + (uint d - 48)) r
      else if d = 0x5F then
        (case r of [] \<Rightarrow> None | e # _ \<Rightarrow> if ascii_digit e then digits acc r else None)
      else None)"

definition unsigned_decimal :: "bytes \<Rightarrow> int option" where
  "unsigned_decimal ds =
     (case ds of [] \<Rightarrow> None | d # _ \<Rightarrow> if ascii_digit d then digits 0 ds else None)"

definition decimal :: "bytes \<Rightarrow> int option" where
  "decimal b =
     (let strip = dropWhile (\<lambda>c. ascii_space (unat c));
          t = rev (strip (rev (strip b)))
      in case t of
           [] \<Rightarrow> None
         | c # r \<Rightarrow>
             if c = 0x2B then unsigned_decimal r
             else if c = 0x2D then map_option uminus (unsigned_decimal r)
             else unsigned_decimal t)"

definition py_int :: "pyobj \<Rightarrow> error + int" where
  "py_int obj =
     (case obj of
        PyBytes b \<Rightarrow> (case decimal b of Some v \<Rightarrow> Inr v | None \<Rightarrow> Inl ValueError)
      | PyBool v \<Rightarrow> Inr (if v then 1 else 0)
      | PyGlobal _ \<Rightarrow> Inl TypeError)"

definition py_int_from_bytes :: "pyobj \<Rightarrow> error + int" where
  "py_int_from_bytes obj =
     (case obj of PyBytes b \<Rightarrow> Inr (int_from_bytes b) | _ \<Rightarrow> Inl TypeError)"

text \<open>The prefix dispatch of \<^verbatim>\<open>from_bytes\<close>: the \<^verbatim>\<open>if\<close> statement and the final
  \<^verbatim>\<open>return\<close>, given the values of \<^verbatim>\<open>key_bytes\<close>, \<^verbatim>\<open>key_bytes_len\<close> and
  \<^verbatim>\<open>key_type\<close>. Its last branch returns \<^verbatim>\<open>None\<close>, hence the option.\<close>

definition from_bytes_dispatch ::
  "env \<Rightarrow> pyobj \<Rightarrow> int \<Rightarrow> int \<Rightarrow> bool \<Rightarrow> error + PublicKey option" where
  "from_bytes_dispatch E key_bytes key_bytes_len key_type testnet =
     (if key_type = 0x04 then
        (if key_bytes_len \<noteq> 65 then Inl AssertionError
         else
           bind (bind (py_slice key_bytes 1 32) py_int_from_bytes) (\<lambda>x.
           bind (bind (py_slice key_bytes 32 65) py_int_from_bytes) (\<lambda>y.
           bind (PublicKey_init E x y testnet) (\<lambda>r. Inr (Some r)))))
      else if key_type = 0x02 \<or> key_type = 0x03 then
        (if key_bytes_len \<noteq> 33 then Inl AssertionError
         else
           bind (bind (py_slice key_bytes 1 32) py_int_from_bytes) (\<lambda>x.
           bind (curve_y_from_x E x) (\<lambda>y0.
           let y = (if y0 mod 2 \<noteq> key_type - 2 then (- y0) mod curve_p E else y0) in
           bind (PublicKey_init E x y testnet) (\<lambda>r. Inr (Some r)))))
      else Inr None)"

text \<open>The whole function: the two assignments that read the names, then the dispatch.\<close>

definition PublicKey_from_bytes :: "env \<Rightarrow> bytes \<Rightarrow> bool \<Rightarrow> error + PublicKey option" where
  "PublicKey_from_bytes E b testnet =
     (let bound = [(''b'', PyBytes b), (''testnet'', PyBool testnet)] in
      bind (load_name bound ''key_bytes'') (\<lambda>key_bytes.
      bind (py_len key_bytes) (\<lambda>key_bytes_len.
      bind (load_name bound ''key'') (\<lambda>key.
      bind (bind (py_slice key 0 2) py_int) (\<lambda>key_type.
      from_bytes_dispatch E key_bytes key_bytes_len key_type testnet)))))"

definition PublicKey_from_hex :: "env \<Rightarrow> string \<Rightarrow> bool \<Rightarrow> error + PublicKey option" where
  "PublicKey_from_hex E h testnet =
     bind (bytes_fromhex h) (\<lambda>b. PublicKey_from_bytes E b testnet)"

subsection \<open>PrivateKey\<close>

definition TESTNET_VERSION :: int where "TESTNET_VERSION = 0xEF"
definition MAINNET_VERSION :: int where "MAINNET_VERSION = 0x80"

record PrivateKey =
  prv_key :: int
  prv_version :: int
  prv_public_key :: PublicKey

definition PrivateKey_init :: "env \<Rightarrow> int \<Rightarrow> bool \<Rightarrow> error + PrivateKey" where
  "PrivateKey_init E k testnet =
     bind (curve_public_key E k) (\<lambda>i.
     bind (PublicKey_from_int E i testnet) (\<lambda>pub.
     Inr \<lparr>prv_key = k,
          prv_version = (if testnet then TESTNET_VERSION else MAINNET_VERSION),
          prv_public_key = pub\<rparr>))"

definition PrivateKey_from_int :: "env \<Rightarrow> int \<Rightarrow> bool \<Rightarrow> error + PrivateKey" where
  "PrivateKey_from_int E i testnet = PrivateKey_init E i testnet"


text \<open>The outcomes of \<^verbatim>\<open>from_random\<close>: one per value the random source may return.\<close>

definition PrivateKey_from_random :: "env \<Rightarrow> bool \<Rightarrow> (error + PrivateKey) set" where
  "PrivateKey_from_random E testnet =
     (case randrange 1 (curve_n E - 1) of
        Inl e \<Rightarrow> {Inl e}
      | Inr ks \<Rightarrow> (\<lambda>k. PrivateKey_init E k testnet) ` ks)"

definition PrivateKey_bytes :: "PrivateKey \<Rightarrow> error + bytes" where
  "PrivateKey_bytes self =
     bind (bytes_of_int (prv_version self)) (\<lambda>v.
     bind (int_to_bytes (prv_key self) 32) (\<lambda>kb.
     Inr (v @ kb)))"


definition PrivateKey_int :: "PrivateKey \<Rightarrow> int" where
  "PrivateKey_int self = prv_key self"

definition PublicKey_from_private_key :: "PrivateKey \<Rightarrow> PublicKey" where
  "PublicKey_from_private_key private_key = prv_public_key private_key"

subsection \<open>A concrete environment\<close>

text \<open>
  Modelled from the spec: the curve engine (\<^verbatim>\<open>two1.crypto.ecdsa\<close>: \<^verbatim>\<open>secp256k1\<close>,
  \<^verbatim>\<open>ECPointAffine\<close>) is imported by the module and is not part of its source. Section 1
  of the specification names its operations (scalar multiplication of the generator,
  the curve-membership test, recovering \<open>y\<close> from \<open>x\<close>) and section 4.3 the integer
  view of a point, \<^verbatim>\<open>(x << bitLengthOf(n)) + y\<close>, with \<open>x\<close> in the high bits. They are
  written here for a curve \<open>y\<^sup>2 = x\<^sup>3 + a x + b\<close> over the integers modulo a prime
  \<open>p\<close> with \<open>p mod 4 = 3\<close>; the point at infinity is \<open>None\<close>.
\<close>

function mod_pow :: "int \<Rightarrow> int \<Rightarrow> int \<Rightarrow> int" where
  "mod_pow p v e =
     (if e \<le> 0 then 1 mod p
      else (let h = mod_pow p v (e div 2); s = h * h mod p
            in if e mod 2 = 1 then s * v mod p else s))"
  by pat_completeness auto
termination
  by (relation "measure (\<lambda>(p, v, e). nat e)") auto

declare mod_pow.simps [simp del]

definition inv_mod :: "int \<Rightarrow> int \<Rightarrow> int" where
  "inv_mod p v = mod_pow p v (p - 2)"

fun ec_add :: "int \<Rightarrow> int \<Rightarrow> (int \<times> int) option \<Rightarrow> (int \<times> int) option \<Rightarrow> (int \<times> int) option" where
  "ec_add p a None Q = Q"
| "ec_add p a (Some P) None = Some P"
| "ec_add p a (Some (x1, y1)) (Some (x2, y2)) =
     (if x1 = x2 \<and> (y1 + y2) mod p = 0 then None
      else (let l = (if x1 = x2 then (3 * x1 * x1 + a) * inv_mod p (2 * y1)
                     else (y2 - y1) * inv_mod p ((x2 - x1) mod p)) mod p;
                x3 = (l * l - x1 - x2) mod p
            in Some (x3, (l * (x1 - x3) - y1) mod p)))"

function ec_mul :: "int \<Rightarrow> int \<Rightarrow> int \<Rightarrow> (int \<times> int) option \<Rightarrow> (int \<times> int) option" where
  "ec_mul p a k P =
     (if k \<le> 0 then None
      else if k = 1 then P
      else (let H = ec_mul p a (k div 2) P; D = ec_add p a H H
            in if k mod 2 = 1 then ec_add p a D P else D))"
  by pat_completeness auto
termination
  by (relation "measure (\<lambda>(p, a, k, P). nat k)") auto

declare ec_mul.simps [simp del]

text \<open>
  The digests and the Base58Check codec of the concrete environment are stand-ins of the
  right shape, not the real algorithms: a digest of fixed length, and a codec that
  appends the first four bytes of the double digest and checks them on decoding. No
  property below depends on what they compute; they only make the environment a closed
  term at which the theorems can be instantiated.
\<close>

definition digest :: "nat \<Rightarrow> bytes \<Rightarrow> bytes" where
  "digest len m = be_bytes len (int_from_bytes m + int (length m))"

definition checksum :: "bytes \<Rightarrow> bytes" where
  "checksum v = take 4 (digest 32 (digest 32 v))"

definition framed_encode :: "bytes \<Rightarrow> string" where
  "framed_encode v = map (\<lambda>b. char_of (unat b)) (v @ checksum v)"

definition framed_decode :: "string \<Rightarrow> error + bytes" where
  "framed_decode s =
     (let raw = map (\<lambda>c. of_nat (of_char c)) s :: bytes in
      if length raw < 4 then Inl ValueError
      else (let v = take (length raw - 4) raw in
            if drop (length raw - 4) raw = checksum v then Inr v else Inl ValueError))"

definition curve_env :: "int \<Rightarrow> int \<Rightarrow> int \<Rightarrow> int \<Rightarrow> int \<Rightarrow> int \<Rightarrow> env" where
  "curve_env p a b gx gy n =
     \<lparr>curve_p = p,
      curve_n = n,
      curve_public_key = (\<lambda>k. case ec_mul p a k (Some (gx, gy)) of
                                 None \<Rightarrow> Inl CurveError
                               | Some (x, y) \<Rightarrow> Inr (push_bit (bit_length n) x + y)),
      curve_is_on_curve = (\<lambda>pt. (point_y pt * point_y pt
                                   - (point_x pt * point_x pt * point_x pt + a * point_x pt + b))
                                  mod p = 0),
      curve_y_from_x = (\<lambda>x. Inr (mod_pow p (x * x * x + a * x + b) ((p + 1) div 4))),
      ECPointAffine_from_int = (\<lambda>i. Inr (ECPointAffine (drop_bit (bit_length n) i)
                                                       (take_bit (bit_length n) i))),
      hashlib_sha256 = digest 32,
      hashlib_ripemd160 = digest 20,
      b58encode_check = framed_encode,
      b58decode_check = framed_decode\<rparr>"

text \<open>The parameters of secp256k1: the prime, the generator and its order.\<close>

definition secp256k1_p :: int where
  "secp256k1_p = 0xFFFFFFFFFFFFFFFFFFFFFFFFFFFFFFFFFFFFFFFFFFFFFFFFFFFFFFFEFFFFFC2F"

definition secp256k1_n :: int where
  "secp256k1_n = 0xFFFFFFFFFFFFFFFFFFFFFFFFFFFFFFFEBAAEDCE6AF48A03BBFD25E8CD0364141"

definition secp256k1_gx :: int where
  "secp256k1_gx = 0x79BE667EF9DCBBAC55A06295CE870B07029BFCDB2DCE28D959F2815B16F81798"

definition secp256k1_gy :: int where
  "secp256k1_gy = 0x483ADA7726A3C4655DA4FBFC0E1108A8FD17B448A68554199C47D08FFB10D4B8"

definition bitcoin_curve :: env where
  "bitcoin_curve = curve_env secp256k1_p 0 7 secp256k1_gx secp256k1_gy secp256k1_n"

text \<open>A curve of the same family small enough to run the engine on: \<open>y\<^sup>2 = x\<^sup>3 + 7\<close>
  modulo 67, whose 79 points are generated by \<open>(2, 22)\<close>.\<close>

definition small_curve :: env where
  "small_curve = curve_env 67 0 7 2 22 79"

text \<open>Two values of the concrete environment: the public key of the generator on
  Mainnet, and the private key of scenario A of the specification (scalar 1, Mainnet).\<close>

definition generator_key :: "error + PublicKey" where
  "generator_key = PublicKey_init bitcoin_curve secp256k1_gx secp256k1_gy False"

definition scenario_A :: "error + PrivateKey" where
  "scenario_A = PrivateKey_init bitcoin_curve 1 False"

section \<open>Properties\<close>

subsection \<open>Bytes and integers\<close>

lemma length_be_bytes: "length (be_bytes len k) = len"
  by (induction len arbitrary: k) auto

lemma int_from_bytes_snoc: "int_from_bytes (bs @ [c]) = int_from_bytes bs * 256 + uint c"
  by (simp add: int_from_bytes_def)

lemma uint_byte_of_mod: "uint (word_of_int (i mod 256) :: byte) = i mod 256"
  by (simp add: uint_word_of_int take_bit_eq_mod)

lemma int_from_bytes_be_bytes: "int_from_bytes (be_bytes len k) = k mod 256 ^ len"
proof (induction len arbitrary: k)
  case 0
  show ?case by (simp add: int_from_bytes_def)
next
  case (Suc len)
  have "int_from_bytes (be_bytes (Suc len) k) = (k div 256 mod 256 ^ len) * 256 + k mod 256"
    by (simp add: int_from_bytes_snoc Suc.IH uint_byte_of_mod)
  also have "\<dots> = k mod (256 * 256 ^ len)"
    by (simp add: zmod_zmult2_eq)
  finally show ?case by simp
qed

lemma int_from_bytes_be_bytes_id:
  "0 \<le> k \<Longrightarrow> k < 256 ^ len \<Longrightarrow> int_from_bytes (be_bytes len k) = k"
  by (simp add: int_from_bytes_be_bytes)

lemma int_to_bytes_Inr:
  "int_to_bytes k len = Inr bs \<longleftrightarrow> 0 \<le> k \<and> k < 256 ^ len \<and> bs = be_bytes len k"
  by (auto simp: int_to_bytes_def)

lemma point_bytes_Inr:
  "point_bytes pt = Inr ser \<longleftrightarrow>
     0 \<le> point_x pt \<and> point_x pt < 256 ^ 32 \<and> 0 \<le> point_y pt \<and> point_y pt < 256 ^ 32
     \<and> ser = 0x04 # be_bytes 32 (point_x pt) @ be_bytes 32 (point_y pt)"
  by (auto simp: point_bytes_def bind_def bytes_of_int_def int_to_bytes_def)

lemma PublicKey_init_Inr:
  "PublicKey_init E x y testnet = Inr pk \<longleftrightarrow>
     curve_is_on_curve E (ECPointAffine x y)
     \<and> 0 \<le> x \<and> x < 256 ^ 32 \<and> 0 \<le> y \<and> y < 256 ^ 32
     \<and> pk = \<lparr>pub_point = ECPointAffine x y, pub_testnet = testnet,
              pub_address = (if testnet then 0x6F else 0x00)
                # hashlib_ripemd160 E (hashlib_sha256 E (0x04 # be_bytes 32 x @ be_bytes 32 y)),
              pub_b58address = b58encode_check E ((if testnet then 0x6F else 0x00)
                # hashlib_ripemd160 E (hashlib_sha256 E (0x04 # be_bytes 32 x @ be_bytes 32 y)))\<rparr>"
  by (auto simp: PublicKey_init_def point_bytes_def bind_def bytes_of_int_def int_to_bytes_def Let_def)

lemma PublicKey_init_off_curve:
  "\<not> curve_is_on_curve E (ECPointAffine x y) \<Longrightarrow> PublicKey_init E x y testnet = Inl AssertionError"
  by (simp add: PublicKey_init_def)

subsection \<open>The DER codec\<close>

lemma int_octets_nonempty: "int_octets i \<noteq> []"
  by (subst int_octets.simps) simp

lemma signed_from_bytes_snoc:
  "bs \<noteq> [] \<Longrightarrow> signed_from_bytes (bs @ [c]) = signed_from_bytes bs * 256 + uint c"
  by (cases bs) (simp_all add: signed_from_bytes_def)

lemma sint_byte_of_int: "- 128 \<le> i \<Longrightarrow> i < 128 \<Longrightarrow> sint (word_of_int i :: byte) = i"
  by (simp add: sint_sbintrunc' signed_take_bit_int_eq_self)


lemma signed_from_bytes_int_octets: "signed_from_bytes (int_octets i) = i"
proof (induction i rule: int_octets.induct)
  case (1 i)
  show ?case
  proof (cases "- 128 \<le> i \<and> i < 128")
    case True
    have "int_octets i = [word_of_int i]"
      by (subst int_octets.simps, subst if_P [OF True], rule refl)
    with True show ?thesis by (simp add: signed_from_bytes_def sint_byte_of_int)
  next
    case False
    have eq: "int_octets i = int_octets (i div 256) @ [word_of_int (i mod 256)]"
      by (subst int_octets.simps, subst if_not_P [OF False], rule refl)
    have "signed_from_bytes (int_octets i) = signed_from_bytes (int_octets (i div 256)) * 256 + i mod 256"
      unfolding eq by (simp only: signed_from_bytes_snoc [OF int_octets_nonempty] uint_byte_of_mod)
    also have "\<dots> = (i div 256) * 256 + i mod 256" using 1 False by simp
    finally show ?thesis by simp
  qed
qed

lemma length_int_octets:
  "0 \<le> i \<Longrightarrow> i < 256 ^ k \<Longrightarrow> length (int_octets i) \<le> Suc k"
proof (induction k arbitrary: i)
  case 0
  then have "i = 0" by simp
  then show ?case by (subst int_octets.simps) simp
next
  case (Suc k)
  show ?case
  proof (cases "i < 128")
    case True
    with Suc.prems show ?thesis by (subst int_octets.simps) simp
  next
    case False
    with Suc.prems have "\<not> (- 128 \<le> i \<and> i < 128)" by simp
    then have eq: "int_octets i = int_octets (i div 256) @ [word_of_int (i mod 256)]"
      by (subst int_octets.simps) (simp only: if_False)
    have "0 \<le> i div 256" using Suc.prems by simp
    moreover have "i div 256 < 256 ^ k"
    proof -
      have "i < 256 * (256 ^ k :: int)" using Suc.prems by simp
      then show ?thesis by linarith
    qed
    ultimately have "length (int_octets (i div 256)) \<le> Suc k" by (rule Suc.IH)
    then show ?thesis unfolding eq by simp
  qed
qed


lemma unat_byte_of_nat: "m < 128 \<Longrightarrow> unat (of_nat m :: byte) = m"
  by (simp add: unat_of_nat)

lemma byte_of_nat_less: "m < 128 \<Longrightarrow> (of_nat m :: byte) < 128"
  by (simp add: word_less_nat_alt unat_of_nat)

lemma decode_length_short: "m < 128 \<Longrightarrow> decode_length (of_nat m # rest) = Inr (m, rest)"
  by (simp add: decode_length_def byte_of_nat_less unat_byte_of_nat)

lemma encode_tlv_short:
  "length c < 128 \<Longrightarrow> encode_tlv tag c = Inr (tag # of_nat (length c) # c)"
  by (simp add: encode_tlv_def encode_length_def bind_def)

lemma decode_value_integer:
  "length (int_octets i) < 128 \<Longrightarrow>
   decode_value (Suc fuel) (0x02 # of_nat (length (int_octets i)) # int_octets i @ rest)
     = Inr (Integer i, rest)"
  by (simp add: decode_length_short bind_def int_octets_nonempty signed_from_bytes_int_octets)

lemma decode_value_integer_end:
  "length (int_octets i) < 128 \<Longrightarrow>
   decode_value (Suc fuel) (0x02 # of_nat (length (int_octets i)) # int_octets i)
     = Inr (Integer i, [])"
  using decode_value_integer [of i fuel "[]"] by (simp del: decode_value.simps)

lemma decode_value_sequence:
  "length c < 128 \<Longrightarrow> decode_all fuel c = Inr vs \<Longrightarrow>
   decode_value (Suc fuel) (0x30 # of_nat (length c) # c) = Inr (Sequence vs, [])"
  by (simp add: decode_length_short bind_def)

lemma der_point_roundtrip_short:
  assumes "length (int_octets a) + length (int_octets b) + 4 < 128"
  shows "\<exists>der. der_encode_point (ECPointAffine a b) = Inr der
           \<and> der_decode_point curve (Bytes der) = Inr (ECPointAffine a b)"
proof -
  let ?A = "0x02 # of_nat (length (int_octets a)) # int_octets a"
  let ?B = "0x02 # of_nat (length (int_octets b)) # int_octets b"
  let ?der = "0x30 # of_nat (length (?A @ ?B)) # ?A @ ?B"
  have la: "length (int_octets a) < 128" and lb: "length (int_octets b) < 128"
    and lab: "length (?A @ ?B) < 128"
    using assms by simp_all
  have all: "encode_all [Integer a, Integer b] = Inr (?A @ ?B)"
    using la lb by (simp add: encode_tlv_short bind_def)
  have enc: "der_encode_point (ECPointAffine a b) = Inr ?der"
    unfolding der_encode_point_def
    using lab by (simp add: all bind_def encode_tlv_short del: encode_all.simps)
  have d2: "decode_all (Suc (Suc f)) ?B = Inr [Integer b]" for f
    by (subst decode_all.simps)
       (simp add: decode_value_integer_end [OF lb] bind_def del: decode_value.simps)
  have d1: "decode_all (Suc (Suc (Suc f))) (?A @ ?B) = Inr [Integer a, Integer b]" for f
    by (subst decode_all.simps)
       (simp add: decode_value_integer [OF la, of "Suc f" ?B, simplified append_Cons] d2
          bind_def del: decode_value.simps decode_all.simps)
  have "decoder_decode ?der = Inr (Sequence [Integer a, Integer b], [])"
  proof -
    have "length ?der = Suc (Suc (Suc (Suc (length (int_octets a) + length ?B))))" by simp
    then obtain f where f: "length ?der = Suc (Suc (Suc f))" by blast
    have "decode_value (Suc (Suc (Suc (Suc f)))) ?der = Inr (Sequence [Integer a, Integer b], [])"
      by (rule decode_value_sequence [OF lab d1])
    then show ?thesis unfolding decoder_decode_def f .
  qed
  then have "der_decode_point curve (Bytes ?der) = Inr (ECPointAffine a b)"
    by (simp add: der_decode_point_def bind_def getComponentByPosition_def asn1_int_def)
  with enc show ?thesis by blast
qed

text \<open>The codec on small values: the sign byte of 128 and 255, a point, a hexadecimal
  argument, an argument of another type and a truncated encoding.\<close>

lemma int_octets_examples:
  "int_octets 0 = [0x00]" "int_octets 127 = [0x7F]" "int_octets 128 = [0x00, 0x80]"
  "int_octets 255 = [0x00, 0xFF]" "int_octets 256 = [0x01, 0x00]"
  "int_octets (- 1) = [0xFF]" "int_octets (- 129) = [0xFF, 0x7F]"
  by code_simp+

lemma der_encode_point_example:
  "der_encode_point (ECPointAffine 1 255) = Inr [0x30, 0x07, 0x02, 0x01, 0x01, 0x02, 0x02, 0x00, 0xFF]"
  by code_simp

lemma der_decode_point_example:
  "der_decode_point curve (Bytes [0x30, 0x07, 0x02, 0x01, 0x01, 0x02, 0x02, 0x00, 0xFF])
     = Inr (ECPointAffine 1 255)"
  by code_simp

lemma der_decode_point_hex_example:
  "der_decode_point curve (Str ''300702010102020 0ff'') = Inl ValueError"
  "der_decode_point curve (Str ''3007020101020200ff'') = Inr (ECPointAffine 1 255)"
  "der_decode_point curve Other = Inl TypeError"
  by code_simp+

lemma der_decode_truncated:
  "der_decode_point curve (Bytes [0x30, 0x07, 0x02, 0x01, 0x01, 0x02]) = Inl PyAsn1Error"
  by code_simp

subsection \<open>The concrete environment\<close>

lemma unpack_packed:
  fixes x y :: int
  assumes "0 \<le> y" "y < 2 ^ L"
  shows "drop_bit L (push_bit L x + y) = x" and "take_bit L (push_bit L x + y) = y"
proof -
  have "(x * 2 ^ L + y) div 2 ^ L = x" using assms by simp
  then show "drop_bit L (push_bit L x + y) = x"
    by (simp add: drop_bit_eq_div push_bit_eq_mult)
  have "(x * 2 ^ L + y) mod 2 ^ L = y" using assms by simp
  then show "take_bit L (push_bit L x + y) = y"
    by (simp add: take_bit_eq_mod push_bit_eq_mult)
qed

lemma ec_mul_one: "ec_mul p a 1 P = P"
  by (subst ec_mul.simps) simp

lemma bit_length_secp256k1_n: "bit_length secp256k1_n = 256"
  unfolding secp256k1_n_def by code_simp

lemma secp256k1_g_range:
  "0 \<le> secp256k1_gx" "secp256k1_gx < 256 ^ 32" "0 \<le> secp256k1_gy" "secp256k1_gy < 256 ^ 32"
  "secp256k1_gy < 2 ^ 256"
  by (simp_all add: secp256k1_gx_def secp256k1_gy_def)

lemma secp256k1_g_equation:
  "secp256k1_gy * secp256k1_gy - (secp256k1_gx * secp256k1_gx * secp256k1_gx + 7)
     = - 0x1b888e01a06e974017a28a5b4da436169761c9730b7aeedf75fc60f6a33cfc7792fe74711f025d590b10e57f1b3a7ce38ffc4c885c515894b45c19c9f413e5e9 * secp256k1_p"
  by (simp add: secp256k1_gx_def secp256k1_gy_def secp256k1_p_def)

lemma bitcoin_curve_g_on_curve:
  "curve_is_on_curve bitcoin_curve (ECPointAffine secp256k1_gx secp256k1_gy)"
  by (simp add: bitcoin_curve_def curve_env_def secp256k1_g_equation)

lemma bitcoin_curve_public_key_one:
  "curve_public_key bitcoin_curve 1 = Inr (push_bit 256 secp256k1_gx + secp256k1_gy)"
  by (simp add: bitcoin_curve_def curve_env_def ec_mul_one bit_length_secp256k1_n)

lemma bitcoin_curve_from_int_g:
  "ECPointAffine_from_int bitcoin_curve (push_bit 256 secp256k1_gx + secp256k1_gy)
     = Inr (ECPointAffine secp256k1_gx secp256k1_gy)"
  by (simp add: bitcoin_curve_def curve_env_def bit_length_secp256k1_n
        unpack_packed [OF secp256k1_g_range(3) secp256k1_g_range(5)])

lemma bitcoin_curve_n: "curve_n bitcoin_curve = secp256k1_n"
  by (simp add: bitcoin_curve_def curve_env_def)

lemma secp256k1_n_range: "1 < secp256k1_n - 1" "secp256k1_n \<le> 2 ^ 256" "secp256k1_n \<le> 256 ^ 32"
  by (simp_all add: secp256k1_n_def)

lemma bitcoin_curve_p: "curve_p bitcoin_curve = secp256k1_p"
  by (simp add: bitcoin_curve_def curve_env_def)

lemma secp256k1_p_range:
  "secp256k1_gx < secp256k1_p" "secp256k1_gy < secp256k1_p" "secp256k1_p \<le> 2 ^ 256"
  by (simp_all add: secp256k1_p_def secp256k1_gx_def secp256k1_gy_def)

lemma der_encode_g:
  "\<exists>der. der_encode_point (ECPointAffine secp256k1_gx secp256k1_gy) = Inr der
     \<and> der_decode_point bitcoin_curve (Bytes der) = Inr (ECPointAffine secp256k1_gx secp256k1_gy)"
proof -
  have "length (int_octets secp256k1_gx) \<le> 33" "length (int_octets secp256k1_gy) \<le> 33"
    using length_int_octets [OF secp256k1_g_range(1,2)] length_int_octets [OF secp256k1_g_range(3,4)]
    by simp_all
  then have "length (int_octets secp256k1_gx) + length (int_octets secp256k1_gy) + 4 < 128"
    by simp
  then show ?thesis by (rule der_point_roundtrip_short)
qed

text \<open>The two text-reading built-ins on small inputs.\<close>

lemma bytes_fromhex_examples:
  "bytes_fromhex ''30 07'' = Inr [0x30, 0x07]"
  "bytes_fromhex [CHR ''3'', CHR ''0'', CHR 0x09, CHR ''0'', CHR ''7'', CHR 0x0A] = Inr [0x30, 0x07]"
  "bytes_fromhex ''3 007'' = Inl ValueError"
  "bytes_fromhex ''3g'' = Inl ValueError"
  by code_simp+

lemma py_int_examples:
  "py_int (PyBytes [0x30, 0x34]) = Inr 4"
  "py_int (PyBytes [0x20, 0x2D, 0x31, 0x5F, 0x32, 0x0A]) = Inr (- 12)"
  "py_int (PyBytes [0x31, 0x5F, 0x5F, 0x32]) = Inl ValueError"
  "py_int (PyBytes [0x05, 0x00]) = Inl ValueError"
  "py_int (PyBytes []) = Inl ValueError"
  by code_simp+

subsection \<open>PublicKey.from_bytes\<close>

lemma load_name_key_bytes:
  "load_name [(''b'', v), (''testnet'', w)] ''key_bytes'' = Inl (NameError ''key_bytes'')"
  by (simp add: load_name_def module_names_def builtin_names_def)

lemma load_name_key:
  "load_name [(''b'', v), (''testnet'', w)] ''key'' = Inl (NameError ''key'')"
  by (simp add: load_name_def module_names_def builtin_names_def)

text \<open>
  C10. For every input, \<^verbatim>\<open>PublicKey.from_bytes\<close> raises the unbound-name error of its
  first statement: \<^verbatim>\<open>key_bytes\<close> is bound neither in the function, nor at module level,
  nor among the built-ins. Nothing of the argument \<open>b\<close> is read, the prefix dispatch is
  never reached and no PublicKey (and no \<^verbatim>\<open>None\<close>) is returned. The second unbound
  name, \<^verbatim>\<open>key\<close>, would fail the same way were the first one bound.
\<close>

theorem from_bytes_unbound_name:
  "PublicKey_from_bytes E b testnet = Inl (NameError ''key_bytes'')
   \<and> load_name [(''b'', PyBytes b), (''testnet'', PyBool testnet)] ''key'' = Inl (NameError ''key'')"
  by (simp add: PublicKey_from_bytes_def load_name_key_bytes load_name_key bind_def)

subsection \<open>PublicKey construction\<close>

lemma Inr_projr: "\<not> isl v \<Longrightarrow> Inr (projr v) = v"
  by (cases v) simp_all

lemma not_isl_ex: "\<exists>r. v = Inr r \<Longrightarrow> \<not> isl v"
  by auto

lemma PublicKey_init_ok:
  assumes "curve_is_on_curve E (ECPointAffine x y)"
    and "0 \<le> x" "x < 256 ^ 32" "0 \<le> y" "y < 256 ^ 32"
  shows "\<exists>pk. PublicKey_init E x y testnet = Inr pk"
  using assms by (simp only: PublicKey_init_Inr) simp

lemma generator_key_ok: "\<not> isl generator_key"
proof -
  have "\<exists>pk. generator_key = Inr pk"
    unfolding generator_key_def
    by (rule PublicKey_init_ok [OF bitcoin_curve_g_on_curve secp256k1_g_range(1-4)])
  then show ?thesis by (rule not_isl_ex)
qed

lemma generator_key_eq:
  "PublicKey_init bitcoin_curve secp256k1_gx secp256k1_gy False = Inr (projr generator_key)"
  using Inr_projr [OF generator_key_ok] by (simp only: generator_key_def)

lemma PublicKey_from_int_g:
  "PublicKey_from_int bitcoin_curve (push_bit 256 secp256k1_gx + secp256k1_gy) False
     = Inr (projr generator_key)"
  by (simp add: PublicKey_from_int_def bitcoin_curve_from_int_g bind_def PublicKey_from_point_def
        generator_key_eq)

lemma scenario_A_eq:
  "scenario_A = Inr \<lparr>prv_key = 1, prv_version = 0x80, prv_public_key = projr generator_key\<rparr>"
  by (simp add: scenario_A_def PrivateKey_init_def bitcoin_curve_public_key_one bind_def
        PublicKey_from_int_g MAINNET_VERSION_def)

lemma one_off_curve: "\<not> curve_is_on_curve bitcoin_curve (ECPointAffine 1 1)"
  by (simp add: bitcoin_curve_def curve_env_def secp256k1_p_def)

text \<open>
  Every PublicKey that the constructor, \<^verbatim>\<open>from_point\<close>, \<^verbatim>\<open>from_int\<close> or
  \<^verbatim>\<open>from_der\<close> returns holds a point for which the engine's membership test
  \<^verbatim>\<open>is_on_curve\<close> holds, and each of the four fails at the constructor's assertion
  when the coordinates it is given, or decodes, are not on the curve.
\<close>

lemma public_key_curve_invariant:
  "(PublicKey_init E x y t = Inr pk \<longrightarrow>
      pub_point pk = ECPointAffine x y \<and> curve_is_on_curve E (pub_point pk))
   \<and> (PublicKey_from_point E p t = Inr pk1 \<longrightarrow> curve_is_on_curve E (pub_point pk1))
   \<and> (PublicKey_from_int E i t = Inr pk2 \<longrightarrow> curve_is_on_curve E (pub_point pk2))
   \<and> (PublicKey_from_der E d t = Inr pk3 \<longrightarrow> curve_is_on_curve E (pub_point pk3))
   \<and> (\<not> curve_is_on_curve E (ECPointAffine x' y') \<longrightarrow>
        PublicKey_init E x' y' t = Inl AssertionError
        \<and> PublicKey_from_point E (ECPointAffine x' y') t = Inl AssertionError
        \<and> (ECPointAffine_from_int E i' = Inr (ECPointAffine x' y') \<longrightarrow>
             PublicKey_from_int E i' t = Inl AssertionError)
        \<and> (der_decode_point E d' = Inr (ECPointAffine x' y') \<longrightarrow>
             PublicKey_from_der E d' t = Inl AssertionError))"
proof -
  have init: "curve_is_on_curve E (pub_point q) \<and> pub_point q = ECPointAffine u v"
    if "PublicKey_init E u v t = Inr q" for u v q
    using that by (simp add: PublicKey_init_Inr)
  have point: "curve_is_on_curve E (pub_point q)" if "PublicKey_from_point E r t = Inr q" for r q
    using that init unfolding PublicKey_from_point_def by blast
  have from_int: "curve_is_on_curve E (pub_point q)" if "PublicKey_from_int E i t = Inr q" for q
    using that point by (auto simp: PublicKey_from_int_def bind_def split: sum.splits)
  have from_der: "curve_is_on_curve E (pub_point q)" if "PublicKey_from_der E d t = Inr q" for q
    using that point by (auto simp: PublicKey_from_der_def bind_def split: sum.splits)
  have off: "PublicKey_init E x' y' t = Inl AssertionError
      \<and> PublicKey_from_point E (ECPointAffine x' y') t = Inl AssertionError
      \<and> (ECPointAffine_from_int E i' = Inr (ECPointAffine x' y') \<longrightarrow>
           PublicKey_from_int E i' t = Inl AssertionError)
      \<and> (der_decode_point E d' = Inr (ECPointAffine x' y') \<longrightarrow>
           PublicKey_from_der E d' t = Inl AssertionError)"
    if "\<not> curve_is_on_curve E (ECPointAffine x' y')"
    using that
    by (simp add: PublicKey_from_point_def PublicKey_init_off_curve PublicKey_from_int_def
          PublicKey_from_der_def bind_def)
  show ?thesis using init point from_int from_der off by blast
qed

lemma public_key_curve_invariant_at_generator:
  "PublicKey_init bitcoin_curve secp256k1_gx secp256k1_gy False = Inr (projr generator_key)
   \<and> pub_point (projr generator_key) = ECPointAffine secp256k1_gx secp256k1_gy
   \<and> curve_is_on_curve bitcoin_curve (pub_point (projr generator_key))
   \<and> PublicKey_from_point bitcoin_curve (ECPointAffine secp256k1_gx secp256k1_gy) False
       = Inr (projr generator_key)
   \<and> PublicKey_from_int bitcoin_curve (push_bit 256 secp256k1_gx + secp256k1_gy) False
       = Inr (projr generator_key)
   \<and> (\<exists>der. PublicKey_from_der bitcoin_curve (Bytes der) False = Inr (projr generator_key))"
proof -
  obtain der where der: "der_decode_point bitcoin_curve (Bytes der)
      = Inr (ECPointAffine secp256k1_gx secp256k1_gy)"
    using der_encode_g by blast
  have p: "PublicKey_from_point bitcoin_curve (ECPointAffine secp256k1_gx secp256k1_gy) False
      = Inr (projr generator_key)"
    by (simp add: PublicKey_from_point_def generator_key_eq)
  have d: "PublicKey_from_der bitcoin_curve (Bytes der) False = Inr (projr generator_key)"
    by (simp add: PublicKey_from_der_def der bind_def p)
  show ?thesis
    using public_key_curve_invariant [of bitcoin_curve secp256k1_gx secp256k1_gy False
        "projr generator_key"]
      generator_key_eq p d PublicKey_from_int_g
    by blast
qed

text \<open>
  C4. The coordinates \<open>(1, 1)\<close> are not on secp256k1. The constructor and
  \<^verbatim>\<open>from_point\<close> reject them at the assertion (AssertionError, the specification's
  PointNotOnCurve); \<^verbatim>\<open>from_bytes\<close> of their uncompressed serialization does not
  reach the assertion: it raises NameError at its first statement.
\<close>

theorem from_bytes_off_curve:
  "\<not> curve_is_on_curve bitcoin_curve (ECPointAffine 1 1)
   \<and> PublicKey_init bitcoin_curve 1 1 False = Inl AssertionError
   \<and> PublicKey_from_point bitcoin_curve (ECPointAffine 1 1) False = Inl AssertionError
   \<and> length (0x04 # be_bytes 32 1 @ be_bytes 32 1) = 65
   \<and> PublicKey_from_bytes bitcoin_curve (0x04 # be_bytes 32 1 @ be_bytes 32 1) False
       = Inl (NameError ''key_bytes'')"
  by (simp add: one_off_curve PublicKey_init_off_curve PublicKey_from_point_def length_be_bytes
        PublicKey_from_bytes_def load_name_key_bytes bind_def)

subsection \<open>DER round trip of a point\<close>

text \<open>
  C5. For every pair of integers within the field range of the curve, encoding the point
  with \<^verbatim>\<open>der_encode_point\<close> succeeds and \<^verbatim>\<open>der_decode_point\<close> of the result is the
  point with the same \<open>x\<close> and \<open>y\<close>: the sign byte that a leading bit of 1 needs is
  added by the encoder and absorbed by the decoder. The field is at most 256 bits wide,
  so every length is in short form.
\<close>

theorem der_point_roundtrip:
  assumes "0 \<le> x" "x < curve_p curve" "0 \<le> y" "y < curve_p curve" "curve_p curve \<le> 2 ^ 256"
  shows "\<exists>der. der_encode_point (ECPointAffine x y) = Inr der
           \<and> der_decode_point curve (Bytes der) = Inr (ECPointAffine x y)"
proof -
  have "x < 256 ^ 32" "y < 256 ^ 32" using assms by simp_all
  then have "length (int_octets x) \<le> 33" "length (int_octets y) \<le> 33"
    using length_int_octets [of x 32] length_int_octets [of y 32] assms by simp_all
  then have "length (int_octets x) + length (int_octets y) + 4 < 128" by simp
  then show ?thesis by (rule der_point_roundtrip_short)
qed

theorem der_point_roundtrip_witness:
  "0 \<le> secp256k1_gx \<and> secp256k1_gx < curve_p bitcoin_curve
   \<and> 0 \<le> secp256k1_gy \<and> secp256k1_gy < curve_p bitcoin_curve
   \<and> curve_p bitcoin_curve \<le> 2 ^ 256
   \<and> (\<exists>der. der_encode_point (ECPointAffine secp256k1_gx secp256k1_gy) = Inr der
         \<and> der_decode_point bitcoin_curve (Bytes der)
             = Inr (ECPointAffine secp256k1_gx secp256k1_gy))"
proof -
  have h: "0 \<le> secp256k1_gx" "secp256k1_gx < curve_p bitcoin_curve"
    "0 \<le> secp256k1_gy" "secp256k1_gy < curve_p bitcoin_curve" "curve_p bitcoin_curve \<le> 2 ^ 256"
    by (simp_all only: bitcoin_curve_p secp256k1_p_range secp256k1_g_range)
  show ?thesis using h der_point_roundtrip [OF h] by blast
qed

subsection \<open>Address derivation\<close>

text \<open>
  C6. For every PublicKey the constructor returns, the address bytes are the version byte
  (0x00 on Mainnet, 0x6F on Testnet) followed by the RIPEMD-160 digest of the SHA-256
  digest of the 65-byte uncompressed serialization \<^verbatim>\<open>bytes(self)\<close>, hence 21 bytes for
  a 20-byte digest, and the Base58 address is \<^verbatim>\<open>b58encode_check\<close> of those address
  bytes. Both are fields set by the constructor and only read afterwards.
\<close>

theorem address_derivation:
  assumes "PublicKey_init E x y testnet = Inr pk"
  shows "\<exists>ser. PublicKey_bytes pk = Inr ser
           \<and> ser = 0x04 # be_bytes 32 x @ be_bytes 32 y
           \<and> length ser = 65
           \<and> pub_address pk
               = (if testnet then 0x6F else 0x00) # hashlib_ripemd160 E (hashlib_sha256 E ser)
           \<and> (length (hashlib_ripemd160 E (hashlib_sha256 E ser)) = 20
                \<longrightarrow> length (pub_address pk) = 21)
           \<and> pub_b58address pk = b58encode_check E (pub_address pk)"
proof -
  let ?ser = "0x04 # be_bytes 32 x @ be_bytes 32 y"
  from assms have r: "0 \<le> x" "x < 256 ^ 32" "0 \<le> y" "y < 256 ^ 32"
    and pk: "pk = \<lparr>pub_point = ECPointAffine x y, pub_testnet = testnet,
              pub_address = (if testnet then 0x6F else 0x00)
                # hashlib_ripemd160 E (hashlib_sha256 E ?ser),
              pub_b58address = b58encode_check E ((if testnet then 0x6F else 0x00)
                # hashlib_ripemd160 E (hashlib_sha256 E ?ser))\<rparr>"
    by (simp_all only: PublicKey_init_Inr)
  have "PublicKey_bytes pk = Inr ?ser"
    unfolding PublicKey_bytes_def point_bytes_Inr using r by (simp add: pk)
  moreover have "length ?ser = 65" by (simp add: length_be_bytes)
  ultimately show ?thesis by (simp add: pk)
qed

lemma length_digest: "length (digest len m) = len"
  by (simp add: digest_def length_be_bytes)

lemma bitcoin_curve_hashes:
  "hashlib_sha256 bitcoin_curve = digest 32" "hashlib_ripemd160 bitcoin_curve = digest 20"
  "b58encode_check bitcoin_curve = framed_encode" "b58decode_check bitcoin_curve = framed_decode"
  by (simp_all add: bitcoin_curve_def curve_env_def)

theorem address_derivation_witness:
  "PublicKey_init bitcoin_curve secp256k1_gx secp256k1_gy False = Inr (projr generator_key)
   \<and> PublicKey_bytes (projr generator_key)
       = Inr (0x04 # be_bytes 32 secp256k1_gx @ be_bytes 32 secp256k1_gy)
   \<and> length (pub_address (projr generator_key)) = 21
   \<and> pub_address (projr generator_key)
       = 0x00 # digest 20 (digest 32 (0x04 # be_bytes 32 secp256k1_gx @ be_bytes 32 secp256k1_gy))
   \<and> pub_b58address (projr generator_key) = framed_encode (pub_address (projr generator_key))"
  using address_derivation [OF generator_key_eq]
  by (simp add: bitcoin_curve_hashes length_digest generator_key_eq)


lemma PrivateKey_init_Inr:
  "PrivateKey_init E k testnet = Inr sk \<longleftrightarrow>
     (\<exists>i pub. curve_public_key E k = Inr i \<and> PublicKey_from_int E i testnet = Inr pub
        \<and> sk = \<lparr>prv_key = k, prv_version = (if testnet then 0xEF else 0x80),
                  prv_public_key = pub\<rparr>)"
  by (auto simp: PrivateKey_init_def bind_def TESTNET_VERSION_def MAINNET_VERSION_def
           split: sum.splits)

lemma be_bytes_32_one: "be_bytes 32 1 = replicate 31 0 @ [0x01]"
  by code_simp

text \<open>
  C7. For every valid scalar \<open>1 \<le> k < n\<close> (on a curve whose order fits 256 bits) and
  either network, \<^verbatim>\<open>bytes(PrivateKey)\<close> is the version byte followed by 32 bytes
  whose big-endian value is \<open>k\<close>; for scalar 1 on Mainnet these are 0x80, 31 zero
  bytes and 0x01.
\<close>

theorem private_key_bytes:
  assumes "PrivateKey_init E k testnet = Inr sk"
    and "1 \<le> k" "k < curve_n E" "curve_n E \<le> 2 ^ 256"
  shows "\<exists>kb. PrivateKey_bytes sk = Inr ((if testnet then 0xEF else 0x80) # kb)
           \<and> length kb = 32 \<and> int_from_bytes kb = k
           \<and> (k = 1 \<and> \<not> testnet \<longrightarrow> PrivateKey_bytes sk = Inr (0x80 # replicate 31 0 @ [0x01]))"
proof -
  from assms(1) have key: "prv_key sk = k"
    and ver: "prv_version sk = (if testnet then 0xEF else 0x80)"
    by (auto simp: PrivateKey_init_Inr)
  have range: "0 \<le> k" "k < 256 ^ 32" using assms(2-4) by simp_all
  then have kb: "int_to_bytes k 32 = Inr (be_bytes 32 k)"
    by (simp only: int_to_bytes_Inr)
  have b: "PrivateKey_bytes sk = Inr ((if testnet then 0xEF else 0x80) # be_bytes 32 k)"
    by (simp add: PrivateKey_bytes_def key ver kb bytes_of_int_def bind_def)
  have "int_from_bytes (be_bytes 32 k) = k"
    using range by (rule int_from_bytes_be_bytes_id)
  moreover have "k = 1 \<and> \<not> testnet \<longrightarrow> PrivateKey_bytes sk = Inr (0x80 # replicate 31 0 @ [0x01])"
    using b by (auto simp only: be_bytes_32_one if_False)
  ultimately show ?thesis using b by (simp add: length_be_bytes)
qed

lemma scenario_A_init: "PrivateKey_init bitcoin_curve 1 False = Inr (projr scenario_A)"
  by (simp add: scenario_A_def [symmetric] scenario_A_eq)

theorem private_key_bytes_witness:
  "PrivateKey_init bitcoin_curve 1 False = Inr (projr scenario_A)
   \<and> (1::int) \<le> 1 \<and> 1 < curve_n bitcoin_curve \<and> curve_n bitcoin_curve \<le> 2 ^ 256
   \<and> PrivateKey_bytes (projr scenario_A) = Inr (0x80 # replicate 31 0 @ [0x01])"
proof -
  have h: "(1::int) \<le> 1" "1 < curve_n bitcoin_curve" "curve_n bitcoin_curve \<le> 2 ^ 256"
    using secp256k1_n_range by (simp_all add: bitcoin_curve_n)
  show ?thesis using private_key_bytes [OF scenario_A_init h] scenario_A_init h by blast
qed

subsection \<open>PrivateKey serialization\<close>








subsection \<open>PrivateKey construction\<close>

lemma small_curve_public_key_80: "curve_public_key small_curve 80 = Inr 278"
  unfolding small_curve_def curve_env_def by code_simp

lemma small_curve_public_key_1: "curve_public_key small_curve 1 = Inr 278"
  unfolding small_curve_def curve_env_def by code_simp

lemma small_curve_from_int: "ECPointAffine_from_int small_curve 278 = Inr (ECPointAffine 2 22)"
  unfolding small_curve_def curve_env_def by code_simp

lemma small_curve_on_curve: "curve_is_on_curve small_curve (ECPointAffine 2 22)"
  by (simp add: small_curve_def curve_env_def)

lemma small_curve_n: "curve_n small_curve = 79"
  by (simp add: small_curve_def curve_env_def)


lemma small_curve_key:
  "\<exists>pub. PublicKey_from_int small_curve 278 False = Inr pub"
proof -
  have "\<exists>pub. PublicKey_init small_curve 2 22 False = Inr pub"
    by (rule PublicKey_init_ok [OF small_curve_on_curve]) simp_all
  then show ?thesis
    by (simp add: PublicKey_from_int_def small_curve_from_int bind_def PublicKey_from_point_def)
qed

text \<open>
  C1. \<^verbatim>\<open>PrivateKey.__init__\<close> has no range check of its own. For every integer \<open>k\<close>
  it stores \<open>k\<close> and the version byte and derives the public key at once, as
  \<^verbatim>\<open>PublicKey.from_int(bitcoin_curve.public_key(k))\<close>; \<^verbatim>\<open>from_int\<close> is the
  constructor. It succeeds exactly when the engine returns an integer for \<open>k\<close> from
  which \<^verbatim>\<open>PublicKey.from_int\<close> builds a key, and otherwise fails with the error of
  that step: the engine's own, or the AssertionError of a point that is not on the curve.
  Two scalars for which the engine returns the same integer both succeed or both fail.
\<close>

theorem private_key_init_no_range_check:
  "(PrivateKey_init E k t = Inr sk \<longleftrightarrow>
      (\<exists>i pub. curve_public_key E k = Inr i \<and> PublicKey_from_int E i t = Inr pub
         \<and> sk = \<lparr>prv_key = k, prv_version = (if t then 0xEF else 0x80), prv_public_key = pub\<rparr>))
   \<and> (PrivateKey_init E k t = Inl e \<longleftrightarrow>
        curve_public_key E k = Inl e
        \<or> (\<exists>i. curve_public_key E k = Inr i \<and> PublicKey_from_int E i t = Inl e))
   \<and> (PrivateKey_from_int E k t = PrivateKey_init E k t)
   \<and> (curve_public_key E k = curve_public_key E k' \<longrightarrow>
        isl (PrivateKey_init E k t) = isl (PrivateKey_init E k' t))"
proof -
  have "PrivateKey_init E k t = Inl e \<longleftrightarrow>
        curve_public_key E k = Inl e
        \<or> (\<exists>i. curve_public_key E k = Inr i \<and> PublicKey_from_int E i t = Inl e)"
    by (auto simp: PrivateKey_init_def bind_def split: sum.splits)
  moreover have "isl (PrivateKey_init E k t) = isl (PrivateKey_init E k' t)"
    if "curve_public_key E k = curve_public_key E k'"
    using that by (auto simp: PrivateKey_init_def bind_def split: sum.splits)
  ultimately show ?thesis
    by (simp add: PrivateKey_init_Inr PrivateKey_from_int_def)
qed

theorem private_key_init_no_range_check_witness:
  "curve_public_key small_curve 80 = curve_public_key small_curve 1
   \<and> isl (PrivateKey_init small_curve 80 False) = isl (PrivateKey_init small_curve 1 False)
   \<and> (\<exists>pub. PrivateKey_init small_curve 1 False
         = Inr \<lparr>prv_key = 1, prv_version = 0x80, prv_public_key = pub\<rparr>)
   \<and> curve_public_key small_curve 79 = Inl CurveError
   \<and> PrivateKey_init small_curve 79 False = Inl CurveError"
proof -
  obtain pub where pub: "PublicKey_from_int small_curve 278 False = Inr pub"
    using small_curve_key by blast
  have same: "curve_public_key small_curve 80 = curve_public_key small_curve 1"
    by (simp only: small_curve_public_key_80 small_curve_public_key_1)
  have inf: "curve_public_key small_curve 79 = Inl CurveError"
    unfolding small_curve_def curve_env_def by code_simp
  have one: "PrivateKey_init small_curve 1 False
      = Inr \<lparr>prv_key = 1, prv_version = 0x80, prv_public_key = pub\<rparr>"
    using private_key_init_no_range_check [of small_curve 1 False
        "\<lparr>prv_key = 1, prv_version = 0x80, prv_public_key = pub\<rparr>"]
      small_curve_public_key_1 pub by simp
  have fail: "PrivateKey_init small_curve 79 False = Inl CurveError"
    using private_key_init_no_range_check [of small_curve 79 False _ CurveError] inf by simp
  have "isl (PrivateKey_init small_curve 80 False) = isl (PrivateKey_init small_curve 1 False)"
    using private_key_init_no_range_check [of small_curve 80 False _ _ 1] same by blast
  then show ?thesis using same one inf fail by blast
qed

text \<open>
  On the small curve, whose order is 79, the scalar 80 lies outside \<open>1 \<le> k < n\<close> and
  the construction succeeds: the engine returns the generator, as for the scalar 1.
\<close>

theorem private_key_init_out_of_range:
  "\<not> (1 \<le> (80::int) \<and> 80 < curve_n small_curve)
   \<and> \<not> isl (PrivateKey_init small_curve 80 False)
   \<and> prv_key (projr (PrivateKey_init small_curve 80 False)) = 80"
proof -
  obtain pub where pub: "PublicKey_from_int small_curve 278 False = Inr pub"
    using small_curve_key by blast
  have "PrivateKey_init small_curve 80 False
      = Inr \<lparr>prv_key = 80, prv_version = 0x80, prv_public_key = pub\<rparr>"
    by (simp add: PrivateKey_init_def small_curve_public_key_80 bind_def pub MAINNET_VERSION_def)
  then show ?thesis by (simp add: small_curve_n)
qed

subsection \<open>PrivateKey.from_random\<close>

text \<open>
  C9. \<^verbatim>\<open>PrivateKey.from_random\<close> draws from \<^verbatim>\<open>randrange(1, n - 1)\<close>, whose upper
  bound is exclusive: every key it returns has a scalar between 1 and \<open>n - 2\<close>. It
  never returns 0 or a value of \<open>n\<close> or more, and it never returns \<open>n - 1\<close> either.
\<close>

theorem from_random_range:
  "Inr sk \<in> PrivateKey_from_random E t \<longrightarrow> 1 \<le> prv_key sk \<and> prv_key sk \<le> curve_n E - 2"
proof
  assume a: "Inr sk \<in> PrivateKey_from_random E t"
  show "1 \<le> prv_key sk \<and> prv_key sk \<le> curve_n E - 2"
  proof (cases "1 < curve_n E - 1")
    case True
    with a obtain k where k: "1 \<le> k" "k < curve_n E - 1" "PrivateKey_init E k t = Inr sk"
      by (auto simp: PrivateKey_from_random_def randrange_def)
    from k(3) have "prv_key sk = k" by (auto simp: PrivateKey_init_Inr)
    with k show ?thesis by simp
  next
    case False
    with a show ?thesis by (simp add: PrivateKey_from_random_def randrange_def)
  qed
qed

theorem from_random_range_witness:
  "Inr (projr scenario_A) \<in> PrivateKey_from_random bitcoin_curve False
   \<and> prv_key (projr scenario_A) = 1
   \<and> prv_key (projr scenario_A) \<le> curve_n bitcoin_curve - 2
   \<and> prv_key (projr scenario_A) \<noteq> curve_n bitcoin_curve - 1"
proof -
  have n: "1 < curve_n bitcoin_curve - 1"
    using secp256k1_n_range(1) by (simp only: bitcoin_curve_n)
  then have "(1::int) \<in> {1..<curve_n bitcoin_curve - 1}" by simp
  then have "PrivateKey_init bitcoin_curve 1 False
      \<in> (\<lambda>k. PrivateKey_init bitcoin_curve k False) ` {1..<curve_n bitcoin_curve - 1}"
    by (rule imageI)
  then have m: "Inr (projr scenario_A) \<in> PrivateKey_from_random bitcoin_curve False"
    using n by (simp add: PrivateKey_from_random_def randrange_def scenario_A_init)
  have "prv_key (projr scenario_A) = 1" by (simp add: scenario_A_eq)
  then show ?thesis using from_random_range [of "projr scenario_A" bitcoin_curve False] m by simp
qed

subsection \<open>PublicKey.from_bytes at concrete inputs\<close>

text \<open>
  C2. The public key of the generator is constructed, its uncompressed serialization is
  0x04 followed by the two 32-byte coordinates, and \<^verbatim>\<open>from_bytes\<close> of that
  serialization raises NameError instead of returning the key.
\<close>

theorem from_bytes_of_bytes_fails:
  "PublicKey_init bitcoin_curve secp256k1_gx secp256k1_gy False = Inr (projr generator_key)
   \<and> PublicKey_bytes (projr generator_key)
       = Inr (0x04 # be_bytes 32 secp256k1_gx @ be_bytes 32 secp256k1_gy)
   \<and> PublicKey_from_bytes bitcoin_curve
         (0x04 # be_bytes 32 secp256k1_gx @ be_bytes 32 secp256k1_gy) False
       = Inl (NameError ''key_bytes'')"
proof -
  have "point_bytes (ECPointAffine secp256k1_gx secp256k1_gy)
      = Inr (0x04 # be_bytes 32 secp256k1_gx @ be_bytes 32 secp256k1_gy)"
    unfolding point_bytes_Inr using secp256k1_g_range(1-4) by simp
  moreover have "pub_point (projr generator_key) = ECPointAffine secp256k1_gx secp256k1_gy"
    using generator_key_eq by (simp only: PublicKey_init_Inr) simp
  ultimately have "PublicKey_bytes (projr generator_key)
      = Inr (0x04 # be_bytes 32 secp256k1_gx @ be_bytes 32 secp256k1_gy)"
    by (simp only: PublicKey_bytes_def)
  then show ?thesis
    by (simp add: generator_key_eq PublicKey_from_bytes_def load_name_key_bytes bind_def)
qed

text \<open>
  C3. On a 65-byte buffer whose first byte is 0x05, \<^verbatim>\<open>from_bytes\<close> raises NameError
  at its first statement: the prefix is never looked at, and the failure is not one of
  the key format.
\<close>

theorem from_bytes_prefix_05:
  "length (0x05 # replicate 64 0 :: bytes) = 65
   \<and> hd (0x05 # replicate 64 0 :: bytes) = 0x05
   \<and> PublicKey_from_bytes bitcoin_curve (0x05 # replicate 64 0) False
       = Inl (NameError ''key_bytes'')"
  by (simp add: PublicKey_from_bytes_def load_name_key_bytes bind_def)

end
